theory Spec2Isabelle
  imports Complex_Main "HOL-Library.Sublist"
begin

section \<open>Numbers as the soil route compares them\<close>

text \<open>
  The soil route destructures its fields from the JSON request body and only ever
  compares them with numeric literals (\<open>pH >= 6.0\<close>, \<open>nitrogen < 150\<close>, ...).
  JavaScript converts the left operand with ToNumber first, so a field is, for these
  comparisons, one of: a finite number (a JSON number, a numeric string, a boolean,
  \<open>null\<close>, which converts to 0), plus or minus infinity (the strings \<open>"Infinity"\<close>,
  \<open>"1e999"\<close>), or NaN (a missing field is \<open>undefined\<close>, which converts to NaN; so does
  a non-numeric string or a plain object). Every finite double is a rational, and the
  literals of the route (6.0, 7.5, 5.5, 8.0, 2.5, 1.5, 2.0 and the integers) are exact
  doubles, so a comparison of doubles is the comparison of these rationals.
\<close>

datatype jsnum = Num rat | PosInf | NegInf | NaN

text \<open>\<open>v >= c\<close>, \<open>v <= c\<close>, \<open>v < c\<close>, \<open>v > c\<close> for a finite literal \<open>c\<close>: every
  comparison with NaN is false.\<close>

primrec js_ge :: "jsnum \<Rightarrow> rat \<Rightarrow> bool" where
  "js_ge (Num x) c = (c \<le> x)"
| "js_ge PosInf c = True"
| "js_ge NegInf c = False"
| "js_ge NaN c = False"

primrec js_le :: "jsnum \<Rightarrow> rat \<Rightarrow> bool" where
  "js_le (Num x) c = (x \<le> c)"
| "js_le PosInf c = False"
| "js_le NegInf c = True"
| "js_le NaN c = False"

primrec js_lt :: "jsnum \<Rightarrow> rat \<Rightarrow> bool" where
  "js_lt (Num x) c = (x < c)"
| "js_lt PosInf c = False"
| "js_lt NegInf c = True"
| "js_lt NaN c = False"

primrec js_gt :: "jsnum \<Rightarrow> rat \<Rightarrow> bool" where
  "js_gt (Num x) c = (c < x)"
| "js_gt PosInf c = True"
| "js_gt NegInf c = False"
| "js_gt NaN c = False"

section \<open>The soil-analysis route (src/mainroute.srver.ts, POST /api/soil-analysis)\<close>

text \<open>
  The fields of the request body that flow into \<open>healthScore\<close>, \<open>recommendations\<close> and
  \<open>alerts\<close>. The route also reads \<open>moisture\<close>, \<open>temperature\<close> and \<open>region\<close>; they
  reach none of these three outputs.
\<close>

record soil_sample =
  pH :: jsnum
  nitrogen :: jsnum
  phosphorus :: jsnum
  potassium :: jsnum
  organicMatter :: jsnum

text \<open>
  \<open>let healthScore = 0\<close> followed by five statements, each of which adds to the
  variable. Each statement is a function from the variable's value before it to the value
  after it; an \<open>if\<close> with no final \<open>else\<close> leaves the variable as it is.
\<close>

definition pH_stmt :: "soil_sample \<Rightarrow> int \<Rightarrow> int" where
  "pH_stmt s healthScore =
     (if js_ge (pH s) 6.0 \<and> js_le (pH s) 7.5 then healthScore + 20
      else if js_ge (pH s) 5.5 \<and> js_le (pH s) 8.0 then healthScore + 15
      else healthScore + 5)"

definition nitrogen_stmt :: "soil_sample \<Rightarrow> int \<Rightarrow> int" where
  "nitrogen_stmt s healthScore =
     (if js_ge (nitrogen s) 150 \<and> js_le (nitrogen s) 300 then healthScore + 20
      else if js_ge (nitrogen s) 100 then healthScore + 10
      else healthScore)"

definition phosphorus_stmt :: "soil_sample \<Rightarrow> int \<Rightarrow> int" where
  "phosphorus_stmt s healthScore =
     (if js_ge (phosphorus s) 15 \<and> js_le (phosphorus s) 40 then healthScore + 20
      else if js_ge (phosphorus s) 10 then healthScore + 10
      else healthScore)"

definition potassium_stmt :: "soil_sample \<Rightarrow> int \<Rightarrow> int" where
  "potassium_stmt s healthScore =
     (if js_ge (potassium s) 120 \<and> js_le (potassium s) 250 then healthScore + 20
      else if js_ge (potassium s) 80 then healthScore + 10
      else healthScore)"

definition organicMatter_stmt :: "soil_sample \<Rightarrow> int \<Rightarrow> int" where
  "organicMatter_stmt s healthScore =
     (if js_ge (organicMatter s) 2.5 then healthScore + 20
      else if js_ge (organicMatter s) 1.5 then healthScore + 15
      else healthScore + 5)"

text \<open>The value of the variable \<open>healthScore\<close> when the result object is built.\<close>

definition healthScore_var :: "soil_sample \<Rightarrow> int" where
  "healthScore_var s =
     organicMatter_stmt s (potassium_stmt s (phosphorus_stmt s (nitrogen_stmt s (pH_stmt s 0))))"

text \<open>
  The entries of \<open>recommendations\<close> and \<open>alerts\<close> are fixed string literals (most of them
  Hindi text), all non-empty. Each literal is named by a constructor:
  \<^item> \<open>NitrogenAdvice\<close>: the nitrogen-deficiency literal (urea or vermicompost);
  \<^item> \<open>PhosphorusAdvice\<close>: the phosphorus-deficiency literal (SSP or DAP);
  \<^item> \<open>PotashAdvice\<close>: the potash-deficiency literal (MOP or SOP);
  \<^item> \<open>LimeAdvice\<close>: add lime to reduce acidity;
  \<^item> \<open>GypsumAdvice\<close>: use gypsum to reduce alkalinity;
  \<^item> \<open>OrganicManureAdvice\<close>: increase organic manure;
  \<^item> \<open>ApplyUrea\<close>: the literal \<open>"Apply urea (46-0-0) at 120-150 kg/hectare"\<close>;
  \<^item> \<open>CriticalCondition\<close>: the only literal of \<open>alerts\<close> (soil condition is poor).
\<close>

datatype advisory =
  NitrogenAdvice | PhosphorusAdvice | PotashAdvice | LimeAdvice | GypsumAdvice
  | OrganicManureAdvice | ApplyUrea | CriticalCondition

text \<open>\<open>cond ? literal : null\<close> is an optional entry; \<open>.filter(Boolean)\<close> drops the
  \<open>null\<close>s and keeps every (non-empty) literal, in order.\<close>

definition cond_entry :: "bool \<Rightarrow> advisory \<Rightarrow> advisory option" where
  "cond_entry c a = (if c then Some a else None)"

fun filter_Boolean :: "advisory option list \<Rightarrow> advisory list" where
  "filter_Boolean [] = []"
| "filter_Boolean (None # es) = filter_Boolean es"
| "filter_Boolean (Some a # es) = a # filter_Boolean es"

definition recommendations_array :: "soil_sample \<Rightarrow> advisory option list" where
  "recommendations_array s =
     [cond_entry (js_lt (nitrogen s) 150) NitrogenAdvice,
      cond_entry (js_lt (phosphorus s) 15) PhosphorusAdvice,
      cond_entry (js_lt (potassium s) 120) PotashAdvice,
      cond_entry (js_lt (pH s) 6.0) LimeAdvice,
      cond_entry (js_gt (pH s) 8.0) GypsumAdvice,
      cond_entry (js_lt (organicMatter s) 2.0) OrganicManureAdvice,
      Some ApplyUrea]"

record soil_analysis =
  healthScore :: int
  recommendations :: "advisory list"
  alerts :: "advisory list"

text \<open>The object \<open>soilAnalysis\<close> of the route, restricted to the three fields above
  (\<open>suitableCrops\<close>, \<open>fertilizer\<close> and \<open>irrigation\<close> are left out).\<close>

definition soilAnalysis :: "soil_sample \<Rightarrow> soil_analysis" where
  "soilAnalysis s =
     \<lparr> healthScore = min (healthScore_var s) 100,
       recommendations = filter_Boolean (recommendations_array s),
       alerts = (if healthScore_var s < 50 then [CriticalCondition] else []) \<rparr>"

section \<open>The scoring table as the specification words it\<close>

text \<open>A band \<open>lo\<close>--\<open>hi\<close> with both bounds inclusive, and an open-ended band
  \<open>\<ge> lo\<close>.\<close>

definition in_band :: "rat \<Rightarrow> rat \<Rightarrow> jsnum \<Rightarrow> bool" where
  "in_band lo hi v = (js_ge v lo \<and> js_le v hi)"

definition pH_points :: "jsnum \<Rightarrow> int" where
  "pH_points v = (if in_band 6.0 7.5 v then 20 else if in_band 5.5 8.0 v then 15 else 5)"

definition nitrogen_points :: "jsnum \<Rightarrow> int" where
  "nitrogen_points v = (if in_band 150 300 v then 20 else if js_ge v 100 then 10 else 0)"

definition phosphorus_points :: "jsnum \<Rightarrow> int" where
  "phosphorus_points v = (if in_band 15 40 v then 20 else if js_ge v 10 then 10 else 0)"

definition potassium_points :: "jsnum \<Rightarrow> int" where
  "potassium_points v = (if in_band 120 250 v then 20 else if js_ge v 80 then 10 else 0)"

definition organicMatter_points :: "jsnum \<Rightarrow> int" where
  "organicMatter_points v = (if js_ge v 2.5 then 20 else if js_ge v 1.5 then 15 else 5)"

definition spec_score :: "soil_sample \<Rightarrow> int" where
  "spec_score s =
     min 100 (pH_points (pH s) + nitrogen_points (nitrogen s) + phosphorus_points (phosphorus s)
              + potassium_points (potassium s) + organicMatter_points (organicMatter s))"

text \<open>
  The deficiency flags as the specification words them: one advisory per triggered
  condition among nitrogen<150, phosphorus<15, potassium<120, pH<6.0, pH>8.0,
  organicMatter<2.0, in that order, and nothing else.
\<close>

definition triggered_flags :: "soil_sample \<Rightarrow> advisory list" where
  "triggered_flags s =
     (if js_lt (nitrogen s) 150 then [NitrogenAdvice] else [])
     @ (if js_lt (phosphorus s) 15 then [PhosphorusAdvice] else [])
     @ (if js_lt (potassium s) 120 then [PotashAdvice] else [])
     @ (if js_lt (pH s) 6.0 then [LimeAdvice] else [])
     @ (if js_gt (pH s) 8.0 then [GypsumAdvice] else [])
     @ (if js_lt (organicMatter s) 2.0 then [OrganicManureAdvice] else [])"

text \<open>The order the specification's testable properties give for the flags: pH-low, pH-high,
  nitrogen, phosphorus, potassium, organic matter, critical.\<close>

definition claimed_order :: "advisory list" where
  "claimed_order =
     [LimeAdvice, GypsumAdvice, NitrogenAdvice, PhosphorusAdvice, PotashAdvice,
      OrganicManureAdvice, CriticalCondition]"

text \<open>The order of the entries in the route's array literal.\<close>

definition array_order :: "advisory list" where
  "array_order =
     [NitrogenAdvice, PhosphorusAdvice, PotashAdvice, LimeAdvice, GypsumAdvice,
      OrganicManureAdvice, ApplyUrea]"

text \<open>Three concrete samples: the two of the specification's examples, and an acidic,
  nitrogen-poor sample whose other fields are in their best bands.\<close>

definition sample_good :: soil_sample where
  "sample_good = \<lparr> pH = Num 6.8, nitrogen = Num 200, phosphorus = Num 25,
     potassium = Num 150, organicMatter = Num 3.0 \<rparr>"

definition sample_poor :: soil_sample where
  "sample_poor = \<lparr> pH = Num 5.0, nitrogen = Num 80, phosphorus = Num 8,
     potassium = Num 60, organicMatter = Num 1.0 \<rparr>"

definition sample_acidic :: soil_sample where
  "sample_acidic = \<lparr> pH = Num 5.0, nitrogen = Num 80, phosphorus = Num 25,
     potassium = Num 150, organicMatter = Num 3.0 \<rparr>"

section \<open>The weather service (src/weather-service.ts)\<close>

subsection \<open>Strings\<close>

text \<open>
  Strings are lists of 8-bit characters read as ASCII: \<open>toLowerCase\<close> and \<open>toUpperCase\<close>
  map the 26 letters and leave every other character as it is, and \<open>trim\<close> strips the
  ASCII white space (tab, line feed, vertical tab, form feed, carriage return, space) from
  both ends. JavaScript's Unicode case mappings and white space are outside this model.
\<close>

definition lower_char :: "char \<Rightarrow> char" where
  "lower_char c =
     (if 65 \<le> (of_char c :: nat) \<and> (of_char c :: nat) \<le> 90 then char_of (of_char c + 32 :: nat)
      else c)"

definition upper_char :: "char \<Rightarrow> char" where
  "upper_char c =
     (if 97 \<le> (of_char c :: nat) \<and> (of_char c :: nat) \<le> 122 then char_of (of_char c - 32 :: nat)
      else c)"

definition toLowerCase :: "string \<Rightarrow> string" where
  "toLowerCase s = map lower_char s"

definition is_space :: "char \<Rightarrow> bool" where
  "is_space c = ((of_char c :: nat) \<in> {9, 10, 11, 12, 13, 32})"

definition trim :: "string \<Rightarrow> string" where
  "trim s = rev (dropWhile is_space (rev (dropWhile is_space s)))"

text \<open>\<open>s.includes(part)\<close>: \<open>part\<close> occurs in \<open>s\<close> as a contiguous run.\<close>

definition str_includes :: "string \<Rightarrow> string \<Rightarrow> bool" where
  "str_includes s part = sublist part s"

text \<open>\<open>location.charAt(0).toUpperCase() + location.slice(1)\<close>; on the empty string both
  parts are empty.\<close>

definition capitalize :: "string \<Rightarrow> string" where
  "capitalize location = (case location of [] \<Rightarrow> [] | c # cs \<Rightarrow> upper_char c # cs)"

subsection \<open>Object literals used as lookup tables\<close>

text \<open>
  \<open>indianCities\<close> and \<open>baseTemps\<close> are object literals indexed with a string computed
  from the caller's input. \<open>table[key]\<close> finds the table's own entry, or else a property
  inherited from \<open>Object.prototype\<close> (a function or an object, never a number or a
  string), or else \<open>undefined\<close>.
\<close>

definition object_prototype_keys :: "string list" where
  "object_prototype_keys =
     [''constructor'', ''__proto__'', ''hasOwnProperty'', ''isPrototypeOf'',
      ''propertyIsEnumerable'', ''toLocaleString'', ''toString'', ''valueOf'',
      ''__defineGetter__'', ''__defineSetter__'', ''__lookupGetter__'', ''__lookupSetter__'']"

datatype 'a property = Own 'a | Inherited | Undefined

definition get_property :: "(string \<times> 'a) list \<Rightarrow> string \<Rightarrow> 'a property" where
  "get_property table key =
     (case map_of table key of
        Some v \<Rightarrow> Own v
      | None \<Rightarrow> if key \<in> set object_prototype_keys then Inherited else Undefined)"

definition indianCities :: "(string \<times> string) list" where
  "indianCities =
     [(''mumbai'', ''Mumbai,IN''), (''delhi'', ''Delhi,IN''), (''bangalore'', ''Bangalore,IN''),
      (''hyderabad'', ''Hyderabad,IN''), (''pune'', ''Pune,IN''), (''kolkata'', ''Kolkata,IN''),
      (''chennai'', ''Chennai,IN''), (''ahmedabad'', ''Ahmedabad,IN''), (''jaipur'', ''Jaipur,IN''),
      (''lucknow'', ''Lucknow,IN''), (''kanpur'', ''Kanpur,IN''), (''nagpur'', ''Nagpur,IN''),
      (''indore'', ''Indore,IN''), (''thane'', ''Thane,IN''), (''bhopal'', ''Bhopal,IN''),
      (''visakhapatnam'', ''Visakhapatnam,IN'')]"

definition baseTemps :: "(string \<times> int) list" where
  "baseTemps =
     [(''mumbai'', 29), (''delhi'', 25), (''bangalore'', 24), (''hyderabad'', 28), (''pune'', 26),
      (''kolkata'', 27), (''chennai'', 30), (''ahmedabad'', 32), (''jaipur'', 28), (''lucknow'', 26),
      (''patna'', 26), (''bhopal'', 25), (''indore'', 27), (''nagpur'', 28), (''raipur'', 26)]"

text \<open>
  \<open>normalizeLocation\<close>: \<open>this.indianCities[normalized] || `${location},IN`\<close>. The
  result is the text that goes into the request's query; an inherited property is truthy,
  so it is returned as it is (\<open>ObjectQuery\<close>).
\<close>

datatype query = Query string | ObjectQuery

definition normalizeLocation :: "string \<Rightarrow> query" where
  "normalizeLocation location =
     (let normalized = trim (toLowerCase location)
      in case get_property indianCities normalized of
           Own canonical \<Rightarrow> if canonical \<noteq> [] then Query canonical else Query (location @ '',IN'')
         | Inherited \<Rightarrow> ObjectQuery
         | Undefined \<Rightarrow> Query (location @ '',IN''))"

subsection \<open>Randomness and the clock\<close>

text \<open>
  \<open>Math.random()\<close> is a source of numbers: \<open>draws g i\<close> is the value of the \<open>i\<close>-th
  call and \<open>pos g\<close> counts the calls made so far. JavaScript promises each value to lie in
  [0, 1); \<open>unit_draws\<close> says so. Products and floors are taken over the rationals.
\<close>

record rng =
  draws :: "nat \<Rightarrow> rat"
  pos :: nat

definition Math_random :: "rng \<Rightarrow> rat \<times> rng" where
  "Math_random g = (draws g (pos g), g\<lparr>pos := pos g + 1\<rparr>)"

definition unit_draws :: "rng \<Rightarrow> bool" where
  "unit_draws g = (\<forall>i. 0 \<le> draws g i \<and> draws g i < 1)"

text \<open>\<open>xs[i]\<close> on an array: \<open>undefined\<close> (here \<open>None\<close>) outside the array.\<close>

definition js_index :: "'a list \<Rightarrow> int \<Rightarrow> 'a option" where
  "js_index xs i = (if 0 \<le> i \<and> i < int (length xs) then Some (xs ! nat i) else None)"

datatype season = winter | summer | monsoon | postMonsoon

primrec descriptions :: "season \<Rightarrow> string list" where
  "descriptions winter = [''clear sky'', ''few clouds'', ''mist'', ''haze'']"
| "descriptions summer = [''clear sky'', ''scattered clouds'', ''haze'', ''hot'']"
| "descriptions monsoon =
     [''light rain'', ''moderate rain'', ''overcast clouds'', ''thunderstorm'']"
| "descriptions postMonsoon = [''clear sky'', ''few clouds'', ''partly cloudy'']"

text \<open>The first argument is \<open>new Date().getMonth()\<close>, 0 for January.\<close>

definition getSeasonalDescription :: "nat \<Rightarrow> rng \<Rightarrow> string option \<times> rng" where
  "getSeasonalDescription getMonth_now g =
     (let month = getMonth_now + 1;
          season = (if month \<ge> 12 \<or> month \<le> 2 then winter
                    else if month \<ge> 6 \<and> month \<le> 9 then monsoon
                    else if month \<ge> 10 \<and> month \<le> 11 then postMonsoon
                    else summer);
          seasonDescriptions = descriptions season;
          (r, g') = Math_random g
      in (js_index seasonDescriptions \<lfloor>r * of_nat (length seasonDescriptions)\<rfloor>, g'))"

subsection \<open>Readings and the fallback generator\<close>

text \<open>\<open>source: 'OpenWeatherMap'\<close> marks a reading of the upstream provider,
  \<open>source: 'Climate Database'\<close> a generated one.\<close>

datatype source_tag = OpenWeatherMap | ClimateDatabase

text \<open>
  \<open>baseTemp + variation\<close> is a number when \<open>baseTemp\<close> is one. When \<open>baseTemp\<close> is an
  inherited property (location \<open>"constructor"\<close>), \<open>+\<close> concatenates text: \<open>ObjectText\<close>.
\<close>

datatype temperature_value = Degrees int | ObjectText

record weather_reading =
  temperature :: temperature_value
  humidity :: rat
  description :: "string option"
  windSpeed :: int
  rainfall :: rat
  city :: string
  country :: string
  icon :: string
  source :: source_tag

text \<open>\<open>baseTemps[normalizedLocation] || 27\<close>.\<close>

definition baseTemp_of :: "string \<Rightarrow> int property" where
  "baseTemp_of normalizedLocation =
     (case get_property baseTemps normalizedLocation of
        Own t \<Rightarrow> if t \<noteq> 0 then Own t else Own 27
      | Inherited \<Rightarrow> Inherited
      | Undefined \<Rightarrow> Own 27)"

text \<open>
  \<open>getReliableWeatherData\<close>. The calls of \<open>Math.random()\<close> happen in the order of the
  source text: the variation, the humidity, the description, the wind speed, the test for
  rain and, only when that test succeeds, the amount of rain.
\<close>

definition getReliableWeatherData :: "nat \<Rightarrow> string \<Rightarrow> rng \<Rightarrow> weather_reading \<times> rng" where
  "getReliableWeatherData getMonth_now location g0 =
     (let normalizedLocation = trim (toLowerCase location);
          baseTemp = baseTemp_of normalizedLocation;
          (r1, g1) = Math_random g0;
          variation = \<lfloor>r1 * 4\<rfloor> - 2;
          (r2, g2) = Math_random g1;
          (d, g3) = getSeasonalDescription getMonth_now g2;
          (r4, g4) = Math_random g3;
          (r5, g5) = Math_random g4;
          (rain, g6) = (if r5 < 0.25 then (let (r6, g6) = Math_random g5 in (\<lfloor>r6 * 3\<rfloor>, g6))
                        else (0, g5))
      in (\<lparr> temperature = (case baseTemp of
                              Own t \<Rightarrow> Degrees (t + variation)
                            | Inherited \<Rightarrow> ObjectText
                            | Undefined \<Rightarrow> ObjectText),
            humidity = of_int (65 + \<lfloor>r2 * 15\<rfloor>),
            description = d,
            windSpeed = 8 + \<lfloor>r4 * 7\<rfloor>,
            rainfall = of_int rain,
            city = capitalize location,
            country = ''IN'',
            icon = ''01d'',
            source = ClimateDatabase \<rparr>, g6))"

subsection \<open>The upstream provider\<close>

text \<open>
  What can be thrown inside the inner \<open>try\<close>: \<open>fetch\<close> rejects (no network, or the
  request cannot be built), \<open>response.json()\<close> rejects (the body is not JSON), or the
  mapping reads a property of a missing part of the body.
\<close>

datatype js_error = FetchRejected | BodyNotJson | MissingProperty

text \<open>
  The parts of the provider's JSON body that the mapping reads. \<open>data.main\<close> (with
  \<open>temp\<close> and \<open>humidity\<close>), \<open>data.weather[0]\<close> (with \<open>description\<close> and \<open>icon\<close>) and
  \<open>data.sys\<close> (with \<open>country\<close>) are read without a guard, so a missing one throws;
  \<open>data.wind?.speed\<close> and \<open>data.rain?.['1h']\<close> are guarded.
\<close>

record payload =
  data_main :: "(rat \<times> rat) option"
  data_weather0 :: "(string \<times> string) option"
  data_wind_speed :: "rat option"
  data_rain_1h :: "rat option"
  data_name :: string
  data_sys_country :: "string option"

record response =
  ok :: bool
  content_type :: "string option"
  json :: "js_error + payload"

text \<open>What the service reads from its surroundings: \<open>process.env.OPENWEATHER_API_KEY\<close>,
  the outcome of \<open>fetch\<close> for a query, and \<open>new Date().getMonth()\<close>.\<close>

record environment =
  primaryApiKey :: "string option"
  fetch :: "query \<Rightarrow> js_error + response"
  getMonth :: nat

definition Math_round :: "rat \<Rightarrow> int" where
  "Math_round x = \<lfloor>x + 1/2\<rfloor>"

definition from_payload :: "payload \<Rightarrow> js_error + weather_reading" where
  "from_payload data =
     (case (data_main data, data_weather0 data, data_sys_country data) of
        (Some (temp, hum), Some (descr, icn), Some ctry) \<Rightarrow>
          Inr \<lparr> temperature = Degrees (Math_round temp),
                humidity = hum,
                description = Some descr,
                windSpeed = (case data_wind_speed data of
                               Some speed \<Rightarrow> Math_round (speed * 3.6)
                             | None \<Rightarrow> 0),
                rainfall = (case data_rain_1h data of Some mm \<Rightarrow> mm | None \<Rightarrow> 0),
                city = data_name data,
                country = ctry,
                icon = icn,
                source = OpenWeatherMap \<rparr>
      | _ \<Rightarrow> Inl MissingProperty)"

text \<open>An absent value and the empty string are falsy; every other string is truthy.\<close>

definition truthy :: "string option \<Rightarrow> bool" where
  "truthy v = (case v of None \<Rightarrow> False | Some s \<Rightarrow> s \<noteq> [])"

text \<open>\<open>contentType && contentType.includes('application/json')\<close>.\<close>

definition has_json_content_type :: "response \<Rightarrow> bool" where
  "has_json_content_type resp =
     (truthy (content_type resp)
      \<and> (case content_type resp of
            Some contentType \<Rightarrow> str_includes contentType ''application/json''
          | None \<Rightarrow> False))"

text \<open>
  The body of the inner \<open>try\<close>: \<open>Inl\<close> is a throw, \<open>Inr (Some reading)\<close> the
  \<open>return\<close> inside it, \<open>Inr None\<close> leaving the block without returning.
\<close>

definition primary_request :: "environment \<Rightarrow> query \<Rightarrow> js_error + weather_reading option" where
  "primary_request env normalizedLocation =
     (case fetch env normalizedLocation of
        Inl e \<Rightarrow> Inl e
      | Inr resp \<Rightarrow>
          if ok resp then
            if has_json_content_type resp then
              (case json resp of
                 Inl e \<Rightarrow> Inl e
               | Inr data \<Rightarrow>
                   (case from_payload data of
                      Inl e \<Rightarrow> Inl e
                    | Inr reading \<Rightarrow> Inr (Some reading)))
            else Inr None
          else Inr None)"

text \<open>
  The body of the outer \<open>try\<close> up to the fallback call: the inner \<open>catch\<close> logs and
  goes on, so a throw of \<open>primary_request\<close> becomes \<open>Inr None\<close>.
\<close>

definition try_body :: "environment \<Rightarrow> string \<Rightarrow> js_error + weather_reading option" where
  "try_body env location =
     (let normalizedLocation = normalizeLocation location
      in if truthy (primaryApiKey env) then
           (case primary_request env normalizedLocation of
              Inl primaryError \<Rightarrow> Inr None
            | Inr found \<Rightarrow> Inr found)
         else Inr None)"

text \<open>\<open>getCurrentWeather\<close>: the last case is the outer \<open>catch\<close>, which logs and returns
  the fallback as well.\<close>

definition getCurrentWeather ::
  "environment \<Rightarrow> string \<Rightarrow> rng \<Rightarrow> js_error + (weather_reading \<times> rng)" where
  "getCurrentWeather env location g =
     (case try_body env location of
        Inr (Some reading) \<Rightarrow> Inr (reading, g)
      | Inr None \<Rightarrow> Inr (getReliableWeatherData (getMonth env) location g)
      | Inl error \<Rightarrow> Inr (getReliableWeatherData (getMonth env) location g))"

subsection \<open>Concrete surroundings\<close>

text \<open>
  Five environments, one per way of not getting an upstream reading (no key, an empty
  key, a rejected request, status 500, an HTML answer), all in November, and two random
  sources: one whose every draw is 0.999, one whose draws are 0.5 except the fifth, 0.1.
\<close>

definition env_no_key :: environment where
  "env_no_key = \<lparr> primaryApiKey = None, fetch = (\<lambda>q. Inl FetchRejected), getMonth = 10 \<rparr>"

definition env_empty_key :: environment where
  "env_empty_key = \<lparr> primaryApiKey = Some [], fetch = (\<lambda>q. Inl FetchRejected), getMonth = 6 \<rparr>"

definition env_offline :: environment where
  "env_offline =
     \<lparr> primaryApiKey = Some ''k3y'', fetch = (\<lambda>q. Inl FetchRejected), getMonth = 10 \<rparr>"

definition env_status_500 :: environment where
  "env_status_500 =
     \<lparr> primaryApiKey = Some ''k3y'',
       fetch = (\<lambda>q. Inr \<lparr> ok = False, content_type = Some ''application/json'',
                            json = Inl BodyNotJson \<rparr>),
       getMonth = 10 \<rparr>"

definition env_html :: environment where
  "env_html =
     \<lparr> primaryApiKey = Some ''k3y'',
       fetch = (\<lambda>q. Inr \<lparr> ok = True, content_type = Some ''text/html'',
                            json = Inl BodyNotJson \<rparr>),
       getMonth = 10 \<rparr>"

definition rng_high :: rng where
  "rng_high = \<lparr> draws = (\<lambda>i. 999 / 1000), pos = 0 \<rparr>"

definition rng_mid :: rng where
  "rng_mid = \<lparr> draws = (\<lambda>i. if i = 4 then 1 / 10 else 1 / 2), pos = 0 \<rparr>"

definition reading_high :: weather_reading where
  "reading_high =
     \<lparr> temperature = Degrees 30, humidity = 79, description = Some ''partly cloudy'',
       windSpeed = 14, rainfall = 0, city = ''Mumbai'', country = ''IN'', icon = ''01d'',
       source = ClimateDatabase \<rparr>"

section \<open>Properties of the health score\<close>

lemma pH_stmt_adds: "pH_stmt s h = h + pH_points (pH s)"
  by (simp add: pH_stmt_def pH_points_def in_band_def)

lemma nitrogen_stmt_adds: "nitrogen_stmt s h = h + nitrogen_points (nitrogen s)"
  by (simp add: nitrogen_stmt_def nitrogen_points_def in_band_def)

lemma phosphorus_stmt_adds: "phosphorus_stmt s h = h + phosphorus_points (phosphorus s)"
  by (simp add: phosphorus_stmt_def phosphorus_points_def in_band_def)

lemma potassium_stmt_adds: "potassium_stmt s h = h + potassium_points (potassium s)"
  by (simp add: potassium_stmt_def potassium_points_def in_band_def)

lemma organicMatter_stmt_adds:
  "organicMatter_stmt s h = h + organicMatter_points (organicMatter s)"
  by (simp add: organicMatter_stmt_def organicMatter_points_def)

lemma healthScore_var_sum:
  "healthScore_var s =
     pH_points (pH s) + nitrogen_points (nitrogen s) + phosphorus_points (phosphorus s)
     + potassium_points (potassium s) + organicMatter_points (organicMatter s)"
  by (simp add: healthScore_var_def pH_stmt_adds nitrogen_stmt_adds phosphorus_stmt_adds
      potassium_stmt_adds organicMatter_stmt_adds)

lemma pH_points_range: "5 \<le> pH_points v \<and> pH_points v \<le> 20"
  by (simp add: pH_points_def)

lemma nitrogen_points_range: "0 \<le> nitrogen_points v \<and> nitrogen_points v \<le> 20"
  by (simp add: nitrogen_points_def)

lemma phosphorus_points_range: "0 \<le> phosphorus_points v \<and> phosphorus_points v \<le> 20"
  by (simp add: phosphorus_points_def)

lemma potassium_points_range: "0 \<le> potassium_points v \<and> potassium_points v \<le> 20"
  by (simp add: potassium_points_def)

lemma organicMatter_points_range: "5 \<le> organicMatter_points v \<and> organicMatter_points v \<le> 20"
  by (simp add: organicMatter_points_def)

lemma healthScore_var_range: "10 \<le> healthScore_var s \<and> healthScore_var s \<le> 100"
  using pH_points_range [of "pH s"] nitrogen_points_range [of "nitrogen s"]
    phosphorus_points_range [of "phosphorus s"] potassium_points_range [of "potassium s"]
    organicMatter_points_range [of "organicMatter s"]
  by (simp add: healthScore_var_sum)

text \<open>
  Claim C7. For every soil sample, also one whose fields are out of range, infinite or
  missing (NaN), the returned health score lies between 0 and 100.
\<close>

theorem healthScore_bounded:
  "0 \<le> healthScore (soilAnalysis s) \<and> healthScore (soilAnalysis s) \<le> 100"
  using healthScore_var_range [of s] by (simp add: soilAnalysis_def)

text \<open>
  Claim C1. For every soil sample the returned health score is the sum of the five tiered
  contributions of the scoring table, each evaluated on its own field, capped at 100; a
  value exactly on a boundary of a band belongs to that band (both bounds inclusive), so
  it falls in the more favourable band.
\<close>

theorem healthScore_is_table_sum:
  "healthScore (soilAnalysis s) = spec_score s
   \<and> pH_points (Num 6.0) = 20 \<and> pH_points (Num 7.5) = 20
   \<and> pH_points (Num 5.5) = 15 \<and> pH_points (Num 8.0) = 15
   \<and> nitrogen_points (Num 150) = 20 \<and> nitrogen_points (Num 300) = 20
   \<and> nitrogen_points (Num 100) = 10
   \<and> phosphorus_points (Num 15) = 20 \<and> phosphorus_points (Num 40) = 20
   \<and> phosphorus_points (Num 10) = 10
   \<and> potassium_points (Num 120) = 20 \<and> potassium_points (Num 250) = 20
   \<and> potassium_points (Num 80) = 10
   \<and> organicMatter_points (Num 2.5) = 20 \<and> organicMatter_points (Num 1.5) = 15"
proof -
  have "healthScore (soilAnalysis s) = spec_score s"
    by (simp add: soilAnalysis_def spec_score_def healthScore_var_sum min.commute)
  moreover have "pH_points (Num 6.0) = 20 \<and> pH_points (Num 7.5) = 20
      \<and> pH_points (Num 5.5) = 15 \<and> pH_points (Num 8.0) = 15"
    by (simp add: pH_points_def in_band_def)
  moreover have "nitrogen_points (Num 150) = 20 \<and> nitrogen_points (Num 300) = 20
      \<and> nitrogen_points (Num 100) = 10"
    by (simp add: nitrogen_points_def in_band_def)
  moreover have "phosphorus_points (Num 15) = 20 \<and> phosphorus_points (Num 40) = 20
      \<and> phosphorus_points (Num 10) = 10"
    by (simp add: phosphorus_points_def in_band_def)
  moreover have "potassium_points (Num 120) = 20 \<and> potassium_points (Num 250) = 20
      \<and> potassium_points (Num 80) = 10"
    by (simp add: potassium_points_def in_band_def)
  moreover have "organicMatter_points (Num 2.5) = 20 \<and> organicMatter_points (Num 1.5) = 15"
    by (simp add: organicMatter_points_def)
  ultimately show ?thesis by blast
qed

text \<open>
  Claim C10. For every soil sample the returned health score is at least 10: the pH
  statement and the organic-matter statement each add at least 5 whatever the sample is,
  and no statement subtracts. So the score never reaches 0.
\<close>

theorem healthScore_at_least_10:
  "10 \<le> healthScore (soilAnalysis s)
   \<and> h + 5 \<le> pH_stmt s h \<and> h + 5 \<le> organicMatter_stmt s h
   \<and> h \<le> nitrogen_stmt s h \<and> h \<le> phosphorus_stmt s h \<and> h \<le> potassium_stmt s h
   \<and> healthScore (soilAnalysis s) \<noteq> 0"
proof -
  have "10 \<le> healthScore (soilAnalysis s)"
    using healthScore_var_range [of s] by (simp add: soilAnalysis_def)
  moreover have "h + 5 \<le> pH_stmt s h"
    using pH_points_range [of "pH s"] by (simp add: pH_stmt_adds)
  moreover have "h + 5 \<le> organicMatter_stmt s h"
    using organicMatter_points_range [of "organicMatter s"] by (simp add: organicMatter_stmt_adds)
  moreover have "h \<le> nitrogen_stmt s h"
    using nitrogen_points_range [of "nitrogen s"] by (simp add: nitrogen_stmt_adds)
  moreover have "h \<le> phosphorus_stmt s h"
    using phosphorus_points_range [of "phosphorus s"] by (simp add: phosphorus_stmt_adds)
  moreover have "h \<le> potassium_stmt s h"
    using potassium_points_range [of "potassium s"] by (simp add: potassium_stmt_adds)
  ultimately show ?thesis by simp
qed

text \<open>
  Claim C8. For every soil sample the result carries the critical-condition alert if and
  only if the returned health score is below 50. (The route tests the variable before the
  cap at 100; below 50 the cap changes nothing.)
\<close>

theorem critical_alert_iff_below_50:
  "(CriticalCondition \<in> set (alerts (soilAnalysis s))) = (healthScore (soilAnalysis s) < 50)"
  by (simp add: soilAnalysis_def min_less_iff_disj)

section \<open>Properties of the recommendation list\<close>

lemma filter_Boolean_cond_entry:
  "filter_Boolean (cond_entry c a # es) = (if c then [a] else []) @ filter_Boolean es"
  by (simp add: cond_entry_def)

lemma recommendations_unfold:
  "recommendations (soilAnalysis s) = triggered_flags s @ [ApplyUrea]"
  by (simp add: soilAnalysis_def recommendations_array_def triggered_flags_def
      filter_Boolean_cond_entry)

lemma subseq_optional: "subseq xs ys \<Longrightarrow> subseq ((if c then [a] else []) @ xs) (a # ys)"
  by (simp add: list_emb_Cons)

lemma recommendations_subseq: "subseq (recommendations (soilAnalysis s)) array_order"
proof -
  have "subseq [ApplyUrea] [ApplyUrea]" by simp
  then show ?thesis
    unfolding recommendations_unfold triggered_flags_def array_order_def append_assoc
    by (intro subseq_optional)
qed

lemma alerts_subseq: "subseq (alerts (soilAnalysis s)) [CriticalCondition]"
  by (simp add: soilAnalysis_def)

lemma critical_not_recommended: "CriticalCondition \<notin> set (recommendations (soilAnalysis s))"
  by (simp add: recommendations_unfold triggered_flags_def)

lemma healthScore_var_good: "healthScore_var sample_good = 100"
  by (simp add: healthScore_var_sum sample_good_def pH_points_def nitrogen_points_def
      phosphorus_points_def potassium_points_def organicMatter_points_def in_band_def)

lemma healthScore_var_poor: "healthScore_var sample_poor = 10"
  by (simp add: healthScore_var_sum sample_poor_def pH_points_def nitrogen_points_def
      phosphorus_points_def potassium_points_def organicMatter_points_def in_band_def)

lemma healthScore_var_acidic: "healthScore_var sample_acidic = 65"
  by (simp add: healthScore_var_sum sample_acidic_def pH_points_def nitrogen_points_def
      phosphorus_points_def potassium_points_def organicMatter_points_def in_band_def)

lemma recommendations_poor:
  "recommendations (soilAnalysis sample_poor) =
     [NitrogenAdvice, PhosphorusAdvice, PotashAdvice, LimeAdvice, OrganicManureAdvice, ApplyUrea]"
  by (simp add: recommendations_unfold triggered_flags_def sample_poor_def)

lemma recommendations_acidic:
  "recommendations (soilAnalysis sample_acidic) = [NitrogenAdvice, LimeAdvice, ApplyUrea]"
  by (simp add: recommendations_unfold triggered_flags_def sample_acidic_def)

lemma js_ge_not_lt: "js_ge v c \<Longrightarrow> c' \<le> c \<Longrightarrow> \<not> js_lt v c'"
  by (cases v) simp_all

lemma js_le_not_gt: "js_le v c \<Longrightarrow> c \<le> c' \<Longrightarrow> \<not> js_gt v c'"
  by (cases v) simp_all

text \<open>
  Claim C2, as stated, fails: the list is never just the triggered advisories. On the
  specification's poor sample five conditions trigger and the list has six entries.
\<close>

theorem recommendations_not_only_flags:
  "triggered_flags sample_poor =
     [NitrogenAdvice, PhosphorusAdvice, PotashAdvice, LimeAdvice, OrganicManureAdvice]
   \<and> recommendations (soilAnalysis sample_poor) =
     [NitrogenAdvice, PhosphorusAdvice, PotashAdvice, LimeAdvice, OrganicManureAdvice, ApplyUrea]
   \<and> recommendations (soilAnalysis sample_poor) \<noteq> triggered_flags sample_poor"
  by (simp add: recommendations_unfold) (simp add: triggered_flags_def sample_poor_def)

text \<open>
  Claim C2, amended. For every soil sample the list consists of exactly one advisory per
  triggered condition among nitrogen<150, phosphorus<15, potassium<120, pH<6.0, pH>8.0,
  organicMatter<2.0, in that fixed order, followed by the fixed urea-application entry,
  which is always present; it has no other entries.
\<close>

theorem recommendations_are_flags_then_urea:
  "recommendations (soilAnalysis s) = triggered_flags s @ [ApplyUrea]"
  by (simp add: soilAnalysis_def recommendations_array_def triggered_flags_def
      filter_Boolean_cond_entry)

text \<open>
  Claim C5, as stated, fails. On the acidic sample the nitrogen advisory comes before the
  pH advisory, so even without the urea entry and with the alerts appended the entries are
  not in the claimed order; and on the poor sample the score is below 50 while the list
  holds no critical entry.
\<close>

theorem flag_order_not_pH_first:
  "\<not> subseq (removeAll ApplyUrea (recommendations (soilAnalysis sample_acidic))
             @ alerts (soilAnalysis sample_acidic)) claimed_order
   \<and> \<not> subseq (recommendations (soilAnalysis sample_acidic)) claimed_order
   \<and> healthScore (soilAnalysis sample_poor) < 50
   \<and> CriticalCondition \<notin> set (recommendations (soilAnalysis sample_poor))"
proof -
  have a: "alerts (soilAnalysis sample_acidic) = []"
    by (simp add: soilAnalysis_def healthScore_var_acidic)
  have h: "healthScore (soilAnalysis sample_poor) = 10"
    by (simp add: soilAnalysis_def healthScore_var_poor)
  show ?thesis
    unfolding recommendations_acidic recommendations_poor a h
    by (simp add: claimed_order_def)
qed

text \<open>
  Claim C5, amended. For every soil sample, whatever subset of conditions triggers, the
  list is ordered: nitrogen, phosphorus, potassium, pH-low, pH-high, organic matter, then
  the fixed urea entry, which is always present and always last, never reordered. The
  critical entry is not part of this list: when the score is below 50 it is the single
  entry of the separate alerts list, and otherwise that list is empty.
\<close>

theorem flag_order_follows_array:
  "subseq (recommendations (soilAnalysis s)) array_order
   \<and> subseq (recommendations (soilAnalysis s) @ alerts (soilAnalysis s))
       (array_order @ [CriticalCondition])
   \<and> CriticalCondition \<notin> set (recommendations (soilAnalysis s))
   \<and> recommendations (soilAnalysis s) \<noteq> []
   \<and> last (recommendations (soilAnalysis s)) = ApplyUrea
   \<and> (healthScore (soilAnalysis s) < 50 \<longrightarrow> alerts (soilAnalysis s) = [CriticalCondition])
   \<and> alerts (soilAnalysis s)
       = (if healthScore (soilAnalysis s) < 50 then [CriticalCondition] else [])"
proof -
  have "subseq (recommendations (soilAnalysis s) @ alerts (soilAnalysis s))
          (array_order @ [CriticalCondition])"
    using recommendations_subseq [of s] alerts_subseq [of s] by (rule list_emb_append_mono)
  moreover have "recommendations (soilAnalysis s) \<noteq> []
      \<and> last (recommendations (soilAnalysis s)) = ApplyUrea"
    by (simp add: recommendations_unfold)
  moreover have "alerts (soilAnalysis s)
      = (if healthScore (soilAnalysis s) < 50 then [CriticalCondition] else [])"
    by (simp add: soilAnalysis_def min_less_iff_disj)
  ultimately show ?thesis
    using recommendations_subseq [of s] critical_not_recommended [of s] by simp
qed

theorem flag_order_follows_array_witness:
  "healthScore (soilAnalysis sample_poor) < 50
   \<and> recommendations (soilAnalysis sample_poor) =
       [NitrogenAdvice, PhosphorusAdvice, PotashAdvice, LimeAdvice, OrganicManureAdvice,
        ApplyUrea]
   \<and> subseq (recommendations (soilAnalysis sample_poor)) array_order
   \<and> last (recommendations (soilAnalysis sample_poor)) = ApplyUrea
   \<and> alerts (soilAnalysis sample_poor) = [CriticalCondition]"
proof -
  have h: "healthScore (soilAnalysis sample_poor) < 50"
    by (simp add: soilAnalysis_def healthScore_var_poor)
  from flag_order_follows_array [of sample_poor] h recommendations_poor
  show ?thesis by simp
qed

text \<open>
  Claim C6, as stated, fails in its last part: on the sample pH=6.8, N=200, P=25, K=150,
  organicMatter=3.0 the score is 100 but the list is not empty.
\<close>

theorem good_sample_list_not_empty:
  "healthScore (soilAnalysis sample_good) = 100
   \<and> recommendations (soilAnalysis sample_good) = [ApplyUrea]
   \<and> \<not> (healthScore (soilAnalysis sample_good) = 100
          \<and> recommendations (soilAnalysis sample_good) = [])"
proof -
  have "healthScore (soilAnalysis sample_good) = 100"
    by (simp add: soilAnalysis_def healthScore_var_good)
  moreover have "recommendations (soilAnalysis sample_good) = [ApplyUrea]"
    by (simp add: recommendations_unfold triggered_flags_def sample_good_def)
  ultimately show ?thesis by simp
qed

text \<open>
  Claim C6, amended. For every soil sample whose pH lies in [6.0,7.5], nitrogen in
  [150,300], phosphorus in [15,40], potassium in [120,250] and organic matter is at least
  2.5, the health score is 100, the list holds the fixed urea entry and nothing else (no
  deficiency advisory), and there is no alert; in particular for the sample pH=6.8, N=200,
  P=25, K=150, organicMatter=3.0.
\<close>

theorem ideal_sample_scores_100:
  assumes "js_ge (pH s) 6.0" and "js_le (pH s) 7.5"
    and "js_ge (nitrogen s) 150" and "js_le (nitrogen s) 300"
    and "js_ge (phosphorus s) 15" and "js_le (phosphorus s) 40"
    and "js_ge (potassium s) 120" and "js_le (potassium s) 250"
    and "js_ge (organicMatter s) 2.5"
  shows "healthScore (soilAnalysis s) = 100
       \<and> recommendations (soilAnalysis s) = [ApplyUrea]
       \<and> alerts (soilAnalysis s) = []"
proof -
  have hs: "healthScore_var s = 100"
    using assms
    by (simp add: healthScore_var_sum pH_points_def nitrogen_points_def phosphorus_points_def
        potassium_points_def organicMatter_points_def in_band_def)
  have none: "\<not> js_lt (nitrogen s) 150" "\<not> js_lt (phosphorus s) 15"
    "\<not> js_lt (potassium s) 120" "\<not> js_lt (pH s) 6.0" "\<not> js_gt (pH s) 8.0"
    "\<not> js_lt (organicMatter s) 2.0"
    using assms by (simp_all add: js_ge_not_lt js_le_not_gt)
  have "recommendations (soilAnalysis s) = [ApplyUrea]"
    using none by (simp add: recommendations_unfold triggered_flags_def)
  moreover have "healthScore (soilAnalysis s) = 100 \<and> alerts (soilAnalysis s) = []"
    using hs by (simp add: soilAnalysis_def)
  ultimately show ?thesis by simp
qed

theorem ideal_sample_scores_100_witness:
  "js_ge (pH sample_good) 6.0 \<and> js_le (pH sample_good) 7.5
   \<and> js_ge (nitrogen sample_good) 150 \<and> js_le (nitrogen sample_good) 300
   \<and> js_ge (phosphorus sample_good) 15 \<and> js_le (phosphorus sample_good) 40
   \<and> js_ge (potassium sample_good) 120 \<and> js_le (potassium sample_good) 250
   \<and> js_ge (organicMatter sample_good) 2.5
   \<and> healthScore (soilAnalysis sample_good) = 100
   \<and> recommendations (soilAnalysis sample_good) = [ApplyUrea]
   \<and> alerts (soilAnalysis sample_good) = []"
proof -
  have h: "js_ge (pH sample_good) 6.0" "js_le (pH sample_good) 7.5"
    "js_ge (nitrogen sample_good) 150" "js_le (nitrogen sample_good) 300"
    "js_ge (phosphorus sample_good) 15" "js_le (phosphorus sample_good) 40"
    "js_ge (potassium sample_good) 120" "js_le (potassium sample_good) 250"
    "js_ge (organicMatter sample_good) 2.5"
    by (simp_all add: sample_good_def)
  from ideal_sample_scores_100 [OF h] h show ?thesis by simp
qed

section \<open>Properties of the weather service\<close>

lemma try_body_no_key: "\<not> truthy (primaryApiKey env) \<Longrightarrow> try_body env location = Inr None"
  by (simp add: try_body_def)

lemma try_body_fetch_rejected:
  "fetch env (normalizeLocation location) = Inl e \<Longrightarrow> try_body env location = Inr None"
  by (simp add: try_body_def primary_request_def)

lemma try_body_not_ok:
  "fetch env (normalizeLocation location) = Inr resp \<Longrightarrow> \<not> ok resp
   \<Longrightarrow> try_body env location = Inr None"
  by (simp add: try_body_def primary_request_def)

lemma try_body_not_json:
  "fetch env (normalizeLocation location) = Inr resp \<Longrightarrow> \<not> has_json_content_type resp
   \<Longrightarrow> try_body env location = Inr None"
  by (simp add: try_body_def primary_request_def)

text \<open>Nothing escapes the inner \<open>try\<close>, so the outer \<open>catch\<close> is never entered, and
  the service returns on every input.\<close>

lemma try_body_never_throws: "\<exists>found. try_body env location = Inr found"
  by (simp add: try_body_def split: sum.splits)

lemma getCurrentWeather_returns: "\<exists>r. getCurrentWeather env location g = Inr r"
  by (simp add: getCurrentWeather_def split: sum.splits option.splits)

lemma fallback_when_none:
  "try_body env location = Inr None
   \<Longrightarrow> getCurrentWeather env location g = Inr (getReliableWeatherData (getMonth env) location g)"
  by (simp add: getCurrentWeather_def)

lemma fallback_fixed_fields:
  "city (fst (getReliableWeatherData m location g)) = capitalize location
   \<and> country (fst (getReliableWeatherData m location g)) = ''IN''
   \<and> icon (fst (getReliableWeatherData m location g)) = ''01d''
   \<and> source (fst (getReliableWeatherData m location g)) = ClimateDatabase"
  by (simp add: getReliableWeatherData_def Let_def split_def)

lemma fallback_temperature:
  "temperature (fst (getReliableWeatherData m location g)) =
     (case baseTemp_of (trim (toLowerCase location)) of
        Own t \<Rightarrow> Degrees (t + (\<lfloor>draws g (pos g) * 4\<rfloor> - 2))
      | Inherited \<Rightarrow> ObjectText
      | Undefined \<Rightarrow> ObjectText)"
  by (simp add: getReliableWeatherData_def Let_def split_def Math_random_def
      split: property.splits)

lemma fallback_humidity:
  "humidity (fst (getReliableWeatherData m location g))
     = of_int (65 + \<lfloor>draws g (pos g + 1) * 15\<rfloor>)"
  by (simp add: getReliableWeatherData_def Let_def split_def Math_random_def eval_nat_numeral)

lemma fallback_windSpeed:
  "windSpeed (fst (getReliableWeatherData m location g)) = 8 + \<lfloor>draws g (pos g + 3) * 7\<rfloor>"
  by (simp add: getReliableWeatherData_def Let_def split_def Math_random_def
      getSeasonalDescription_def eval_nat_numeral)

lemma fallback_rainfall:
  "rainfall (fst (getReliableWeatherData m location g))
     = (if draws g (pos g + 4) < 0.25 then of_int \<lfloor>draws g (pos g + 5) * 3\<rfloor> else 0)"
  by (simp add: getReliableWeatherData_def Let_def split_def Math_random_def
      getSeasonalDescription_def eval_nat_numeral)

lemma floor_scaled_draw:
  fixes r :: rat
  assumes "0 \<le> r" and "r < 1" and "0 < n"
  shows "0 \<le> \<lfloor>r * of_int n\<rfloor> \<and> \<lfloor>r * of_int n\<rfloor> \<le> n - 1"
proof -
  have "r * of_int n < of_int n" using assms by simp
  then have "\<lfloor>r * of_int n\<rfloor> < n" by (simp add: floor_less_iff)
  moreover have "0 \<le> r * of_int n" using assms by simp
  then have "0 \<le> \<lfloor>r * of_int n\<rfloor>" by simp
  ultimately show ?thesis by simp
qed

lemma baseTemp_mumbai: "baseTemp_of (trim (toLowerCase ''mumbai'')) = Own 29"
  by code_simp

lemma rng_high_unit: "unit_draws rng_high"
  by (simp add: unit_draws_def rng_high_def)

lemma fallback_mumbai_high: "fst (getReliableWeatherData 10 ''mumbai'' rng_high) = reading_high"
  by code_simp

text \<open>
  Claim C3. For every location string and every upstream outcome among: no credential
  configured, the request rejected (network error), a status outside 2xx, a content type
  that is not JSON, the service returns a reading and raises nothing, and that reading is
  the generated fallback, tagged as such.
\<close>

theorem getCurrentWeather_falls_back:
  assumes "\<not> truthy (primaryApiKey env)
     \<or> (\<exists>e. fetch env (normalizeLocation location) = Inl e)
     \<or> (\<exists>resp. fetch env (normalizeLocation location) = Inr resp \<and> \<not> ok resp)
     \<or> (\<exists>resp. fetch env (normalizeLocation location) = Inr resp
            \<and> \<not> has_json_content_type resp)"
  shows "getCurrentWeather env location g
           = Inr (getReliableWeatherData (getMonth env) location g)
         \<and> source (fst (getReliableWeatherData (getMonth env) location g)) = ClimateDatabase"
proof -
  from assms have "try_body env location = Inr None"
    by (auto simp: try_body_no_key try_body_fetch_rejected try_body_not_ok try_body_not_json)
  then show ?thesis
    by (simp add: fallback_when_none fallback_fixed_fields)
qed

theorem getCurrentWeather_falls_back_witness:
  "map_sum id fst (getCurrentWeather env_no_key ''mumbai'' rng_high) = Inr reading_high
   \<and> map_sum id fst (getCurrentWeather env_offline ''mumbai'' rng_high) = Inr reading_high
   \<and> map_sum id fst (getCurrentWeather env_status_500 ''mumbai'' rng_high) = Inr reading_high
   \<and> map_sum id fst (getCurrentWeather env_html ''mumbai'' rng_high) = Inr reading_high
   \<and> source reading_high = ClimateDatabase"
proof -
  have no_json: "\<not> str_includes ''text/html'' ''application/json''"
    by code_simp
  have k: "\<not> truthy (primaryApiKey env_no_key)"
    by (simp add: env_no_key_def truthy_def)
  have n: "\<exists>e. fetch env_offline (normalizeLocation ''mumbai'') = Inl e"
    by (simp add: env_offline_def)
  have s: "\<exists>resp. fetch env_status_500 (normalizeLocation ''mumbai'') = Inr resp \<and> \<not> ok resp"
    by (simp add: env_status_500_def)
  have c: "\<exists>resp. fetch env_html (normalizeLocation ''mumbai'') = Inr resp
      \<and> \<not> has_json_content_type resp"
    using no_json by (simp add: env_html_def has_json_content_type_def)
  have m: "getMonth env_no_key = 10" "getMonth env_offline = 10" "getMonth env_status_500 = 10"
    "getMonth env_html = 10"
    by (simp_all add: env_no_key_def env_offline_def env_status_500_def env_html_def)
  have "source reading_high = ClimateDatabase"
    by (simp add: reading_high_def)
  then show ?thesis
    using getCurrentWeather_falls_back [of env_no_key "''mumbai''" rng_high] k
      getCurrentWeather_falls_back [of env_offline "''mumbai''" rng_high] n
      getCurrentWeather_falls_back [of env_status_500 "''mumbai''" rng_high] s
      getCurrentWeather_falls_back [of env_html "''mumbai''" rng_high] c
    by (simp add: m fallback_mumbai_high)
qed

text \<open>
  Claim C4 does not hold of the code. For every month and every random source whose draws
  lie in [0,1), the generated reading for mumbai has a temperature from 27 to 30 (the
  variation is \<open>floor(r * 4) - 2\<close>, from -2 to +1), a humidity from 65 to 79, a wind
  speed from 8 to 14 and a rainfall of 0, 1 or 2: the upper ends 31, 80 and 15 that the
  claim and the source's own comments name are never produced.
\<close>

theorem synthetic_upper_ends_unreachable:
  assumes "unit_draws g"
  shows "temperature (fst (getReliableWeatherData m ''mumbai'' g)) \<in> Degrees ` {27..30}
       \<and> humidity (fst (getReliableWeatherData m ''mumbai'' g)) \<in> of_int ` {65..79}
       \<and> windSpeed (fst (getReliableWeatherData m ''mumbai'' g)) \<in> {8..14}
       \<and> rainfall (fst (getReliableWeatherData m ''mumbai'' g)) \<in> of_int ` {0..2}"
proof -
  have d: "0 \<le> draws g i \<and> draws g i < 1" for i
    using assms by (simp add: unit_draws_def)
  have "temperature (fst (getReliableWeatherData m ''mumbai'' g))
          = Degrees (29 + (\<lfloor>draws g (pos g) * 4\<rfloor> - 2))"
    by (simp only: fallback_temperature baseTemp_mumbai property.case)
  moreover have "29 + (\<lfloor>draws g (pos g) * 4\<rfloor> - 2) \<in> {27..30}"
    using floor_scaled_draw [of "draws g (pos g)" 4] d [of "pos g"] by simp
  ultimately have t: "temperature (fst (getReliableWeatherData m ''mumbai'' g))
      \<in> Degrees ` {27..30}"
    by (simp only: imageI)
  have "65 + \<lfloor>draws g (pos g + 1) * 15\<rfloor> \<in> {65..79}"
    using floor_scaled_draw [of "draws g (pos g + 1)" 15] d [of "pos g + 1"] by simp
  then have h: "humidity (fst (getReliableWeatherData m ''mumbai'' g)) \<in> of_int ` {65..79}"
    by (simp only: fallback_humidity imageI)
  have w: "windSpeed (fst (getReliableWeatherData m ''mumbai'' g)) \<in> {8..14}"
    using floor_scaled_draw [of "draws g (pos g + 3)" 7] d [of "pos g + 3"]
    by (simp add: fallback_windSpeed)
  have "\<lfloor>draws g (pos g + 5) * 3\<rfloor> \<in> {0..2}"
    using floor_scaled_draw [of "draws g (pos g + 5)" 3] d [of "pos g + 5"] by simp
  then have "of_int \<lfloor>draws g (pos g + 5) * 3\<rfloor> \<in> (of_int ` {0..2} :: rat set)"
    by (rule imageI)
  moreover have "(0::rat) \<in> of_int ` {0..2}"
    by (rule image_eqI [of _ _ 0]) simp_all
  ultimately have r: "rainfall (fst (getReliableWeatherData m ''mumbai'' g)) \<in> of_int ` {0..2}"
    by (cases "draws g (pos g + 4) < 0.25") (simp_all only: fallback_rainfall if_True if_False)
  from t h w r show ?thesis by blast
qed

theorem synthetic_upper_ends_unreachable_witness:
  "unit_draws rng_high
   \<and> fst (getReliableWeatherData 10 ''mumbai'' rng_high) = reading_high
   \<and> temperature reading_high = Degrees 30 \<and> temperature reading_high \<in> Degrees ` {27..30}
   \<and> humidity reading_high = 79 \<and> humidity reading_high \<in> of_int ` {65..79}
   \<and> windSpeed reading_high = 14 \<and> windSpeed reading_high \<in> {8..14}
   \<and> rainfall reading_high \<in> of_int ` {0..2}"
proof -
  have v: "temperature reading_high = Degrees 30" "humidity reading_high = 79"
    "windSpeed reading_high = 14"
    by (simp_all add: reading_high_def)
  from synthetic_upper_ends_unreachable [OF rng_high_unit, of 10]
  have "temperature reading_high \<in> Degrees ` {27..30}
      \<and> humidity reading_high \<in> of_int ` {65..79}
      \<and> windSpeed reading_high \<in> {8..14}
      \<and> rainfall reading_high \<in> of_int ` {0..2}"
    by (simp only: fallback_mumbai_high)
  with v rng_high_unit fallback_mumbai_high show ?thesis by simp
qed

text \<open>
  Claim C9. For every location string and every two runs with no credential configured
  (each with its own random source, clock and network), both runs return, and the two
  readings agree on city, country and source (and on the icon); only temperature,
  humidity, wind speed, rainfall and description are left to differ.
\<close>

theorem no_credential_runs_agree:
  assumes "\<not> truthy (primaryApiKey env1)" and "\<not> truthy (primaryApiKey env2)"
  shows "\<exists>r1 h1 r2 h2.
           getCurrentWeather env1 location g1 = Inr (r1, h1)
         \<and> getCurrentWeather env2 location g2 = Inr (r2, h2)
         \<and> city r1 = city r2 \<and> country r1 = country r2 \<and> source r1 = source r2
         \<and> icon r1 = icon r2"
proof -
  let ?a = "getReliableWeatherData (getMonth env1) location g1"
  let ?b = "getReliableWeatherData (getMonth env2) location g2"
  have a: "getCurrentWeather env1 location g1 = Inr (fst ?a, snd ?a)"
    using assms(1) by (simp add: try_body_no_key fallback_when_none)
  have b: "getCurrentWeather env2 location g2 = Inr (fst ?b, snd ?b)"
    using assms(2) by (simp add: try_body_no_key fallback_when_none)
  have "city (fst ?a) = city (fst ?b) \<and> country (fst ?a) = country (fst ?b)
      \<and> source (fst ?a) = source (fst ?b) \<and> icon (fst ?a) = icon (fst ?b)"
    by (simp add: fallback_fixed_fields)
  with a b show ?thesis by blast
qed

theorem no_credential_runs_agree_witness:
  "\<not> truthy (primaryApiKey env_no_key) \<and> \<not> truthy (primaryApiKey env_empty_key)
   \<and> (\<exists>r1 h1 r2 h2.
           getCurrentWeather env_no_key ''mumbai'' rng_high = Inr (r1, h1)
         \<and> getCurrentWeather env_empty_key ''mumbai'' rng_mid = Inr (r2, h2)
         \<and> city r1 = city r2 \<and> country r1 = country r2 \<and> source r1 = source r2
         \<and> icon r1 = icon r2)
   \<and> temperature (fst (getReliableWeatherData 10 ''mumbai'' rng_high)) = Degrees 30
   \<and> temperature (fst (getReliableWeatherData 6 ''mumbai'' rng_mid)) = Degrees 29"
proof -
  have k: "\<not> truthy (primaryApiKey env_no_key)" "\<not> truthy (primaryApiKey env_empty_key)"
    by (simp_all add: env_no_key_def env_empty_key_def truthy_def)
  have t: "temperature (fst (getReliableWeatherData 10 ''mumbai'' rng_high)) = Degrees 30"
    "temperature (fst (getReliableWeatherData 6 ''mumbai'' rng_mid)) = Degrees 29"
    by code_simp+
  from no_credential_runs_agree [OF k, of "''mumbai''" rng_high rng_mid] k t
  show ?thesis by simp
qed

end
